theory Spec2Isabelle
  imports Main "HOL-Library.Word"
begin

section \<open>Python values used by the ingestion code\<close>

text \<open>
  Byte strings are lists of 8-bit words, text strings are \<open>string\<close>. An attribute that
  may hold \<open>None\<close> is an \<open>option\<close>. Exceptions are values of \<open>exn\<close>; a call that may
  raise returns \<open>exn + 'a\<close> with \<open>Inl\<close> for the exception.
\<close>

type_synonym bytes = "8 word list"

datatype exn =
    IndexError
  | CouldntDecodeError
  | CouldntEncodeError
  | TooManyMissingFrames
  | OSError
  | ClientError
  | SQLAlchemyError
  | NameError
  | HTTP404

text \<open>Truthiness of an optional sequence: \<open>None\<close> and the empty sequence are false.\<close>

definition truthy :: "'a list option \<Rightarrow> bool" where
  "truthy x = (case x of None \<Rightarrow> False | Some v \<Rightarrow> v \<noteq> [])"

text \<open>\<open>a or b\<close> on optional sequences: the first operand when it is true, else the second.\<close>

definition py_or :: "'a list option \<Rightarrow> 'a list option \<Rightarrow> 'a list option" where
  "py_or a b = (if truthy a then a else b)"

text \<open>\<open>xs[i]\<close> for a non-negative index: \<open>IndexError\<close> out of range.\<close>

definition py_index :: "'a list \<Rightarrow> nat \<Rightarrow> exn + 'a" where
  "py_index xs i = (if i < length xs then Inr (xs ! i) else Inl IndexError)"

text \<open>
  \<open>str.lower\<close>, character by character: the ASCII letters are lower-cased and every other
  character is kept. Names are sequences of ASCII characters here; Python also lower-cases
  letters beyond ASCII.
\<close>

definition lower_char :: "char \<Rightarrow> char" where
  "lower_char c =
     (case map_of (zip ''ABCDEFGHIJKLMNOPQRSTUVWXYZ'' ''abcdefghijklmnopqrstuvwxyz'') c of
        None \<Rightarrow> c
      | Some d \<Rightarrow> d)"

definition lower :: "string \<Rightarrow> string" where
  "lower s = map lower_char s"

text \<open>
  \<open>s.rsplit(sep, 1)\<close> for a one-character separator: the string is cut at the last
  occurrence of the separator; without an occurrence the result is the one-element list.
\<close>

definition rsplit1 :: "char \<Rightarrow> string \<Rightarrow> string list" where
  "rsplit1 c s =
     (if c \<in> set s
      then [rev (tl (dropWhile (\<lambda>x. x \<noteq> c) (rev s))), rev (takeWhile (\<lambda>x. x \<noteq> c) (rev s))]
      else [s])"

section \<open>utils.allowed_file\<close>

text \<open>
  \<^verbatim>\<open>return "." in filename and filename.rsplit(".", 1)[1].lower() in allowed\<close>
  The right operand of \<open>and\<close> is evaluated only when the left one is true.
\<close>

definition allowed_file :: "string \<Rightarrow> string set \<Rightarrow> exn + bool" where
  "allowed_file filename allowed =
     (if CHR ''.'' \<in> set filename
      then (case py_index (rsplit1 (CHR ''.'') filename) 1 of
              Inl e \<Rightarrow> Inl e
            | Inr e \<Rightarrow> Inr (lower e \<in> allowed))
      else Inr False)"


section \<open>Records of the application\<close>

text \<open>
  \<open>models.Track\<close>, with the columns the ingestion and retrieval code touches. The primary
  key is \<open>track_id\<close> (\<open>id\<close> in the source). An attribute that was never assigned is \<open>None\<close>.
\<close>

record track =
  track_id :: "nat option"
  owner_id :: nat
  title :: string
  description :: "string option"
  duration :: "int option"
  mime_type :: "string option"
  original_filename :: "string option"
  file_path :: "string option"
  mp3_path :: "string option"
  preview_path :: "string option"
  original_file :: "bytes option"
  mp3_file :: "bytes option"
  preview_file :: "bytes option"
  s3_key :: "string option"
  s3_mp3_key :: "string option"
  s3_preview_key :: "string option"

text \<open>\<open>Track(owner_id=..., title=..., description=...)\<close>: every other attribute is unset.\<close>

definition Track :: "nat \<Rightarrow> string \<Rightarrow> string option \<Rightarrow> track" where
  "Track owner ttl descr =
     \<lparr> track_id = None, owner_id = owner, title = ttl, description = descr,
       duration = None, mime_type = None, original_filename = None,
       file_path = None, mp3_path = None, preview_path = None,
       original_file = None, mp3_file = None, preview_file = None,
       s3_key = None, s3_mp3_key = None, s3_preview_key = None \<rparr>"

text \<open>The settings of \<open>config.BaseConfig\<close> that the code reads.\<close>

record config =
  storage_mode :: string
  upload_folder :: string
  preview_duration :: int
  transcode_bitrate :: string
  allowed_extensions :: "string set"

text \<open>
  The uploaded \<open>FileStorage\<close>: its declared name, its content and how much of the content
  has been read.
\<close>

record file_storage =
  filename :: string
  content :: bytes
  consumed :: nat

definition file_read :: "file_storage \<Rightarrow> bytes \<times> file_storage" where
  "file_read f = (drop (consumed f) (content f), f\<lparr>consumed := length (content f)\<rparr>)"

text \<open>
  The libraries that the code calls are parameters: \<open>secure_filename\<close> of werkzeug, the
  stream of \<open>uuid.uuid4().hex\<close> values, and the \<open>AudioSegment\<close> of pydub. A decoded
  segment is a value of a type \<open>'a\<close> that the model does not look into:
  \<open>from_file\<close> decodes, \<open>audio_len\<close> is \<open>len(audio)\<close> in milliseconds, \<open>getitem_upto a n\<close> is
  the slice \<open>a[:n]\<close> and \<open>export\<close> encodes; \<open>None\<close> stands for a call that raises. pydub
  cuts raw frames at positions that it computes in floating point; what a slice holds is
  therefore left to the parameter.
\<close>

record 'a libs =
  secure_filename :: "string \<Rightarrow> string"
  from_file :: "bytes \<Rightarrow> string \<Rightarrow> 'a option"
  audio_len :: "'a \<Rightarrow> nat"
  getitem_upto :: "'a \<Rightarrow> int \<Rightarrow> 'a option"
  export :: "'a \<Rightarrow> string \<Rightarrow> string \<Rightarrow> bytes option"
  uuid4_hex :: "nat \<Rightarrow> string"

datatype flash_message = FileTypeNotAllowed | UploadSuccessful | UploadFailed exn

text \<open>
  Everything outside the Python objects: the files of the local filesystem, the objects of
  the bucket with their content types, the committed rows of the \<open>tracks\<close> table, the rows
  written by the open transaction, the next primary key, the messages flashed and logged,
  how many random identifiers were drawn, and the schedule of faults: each call that
  writes to a backend (\<open>mkdir\<close>, \<open>open\<close>, \<open>write\<close>, \<open>os.remove\<close>, \<open>put_object\<close>,
  \<open>delete_object\<close>, \<open>flush\<close>, \<open>commit\<close>) takes the head of \<open>faults\<close> and raises when it is
  \<open>True\<close>; an empty schedule means that nothing fails. Reading the upload, drawing an
  identifier, \<open>rollback\<close>, \<open>flash\<close> and logging do not raise.
\<close>

record world =
  fs :: "string \<rightharpoonup> bytes"
  s3 :: "string \<rightharpoonup> bytes \<times> string"
  rows :: "nat \<rightharpoonup> track"
  txn :: "nat \<rightharpoonup> track"
  next_id :: nat
  faults :: "bool list"
  uuid_ctr :: nat
  flashes :: "(flash_message \<times> string) list"
  logged :: "string list"

type_synonym 'a io = "world \<Rightarrow> (exn + 'a) \<times> world"

definition and_then :: "'a io \<Rightarrow> ('a \<Rightarrow> 'b io) \<Rightarrow> 'b io" where
  "and_then m k w = (case m w of (Inl e, w') \<Rightarrow> (Inl e, w') | (Inr a, w') \<Rightarrow> k a w')"

definition attempt :: "exn \<Rightarrow> unit io" where
  "attempt e w =
     (case faults w of
        [] \<Rightarrow> (Inr (), w)
      | b # bs \<Rightarrow> (if b then Inl e else Inr (), w\<lparr>faults := bs\<rparr>))"

definition uuid4 :: "'a libs \<Rightarrow> string io" where
  "uuid4 L w = (Inr (uuid4_hex L (uuid_ctr w)), w\<lparr>uuid_ctr := Suc (uuid_ctr w)\<rparr>)"

subsection \<open>Local filesystem\<close>

definition path_join :: "string \<Rightarrow> string \<Rightarrow> string" where
  "path_join a b = a @ ''/'' @ b"

definition basename :: "string \<Rightarrow> string" where
  "basename p = rev (takeWhile (\<lambda>x. x \<noteq> CHR ''/'') (rev p))"

text \<open>\<open>Path.mkdir(parents=True, exist_ok=True)\<close>: directories are not part of the model.\<close>

definition mkdir :: "string \<Rightarrow> unit io" where
  "mkdir p = attempt OSError"

text \<open>\<open>open(p, "wb")\<close> creates or truncates the file; \<open>fh.write(b)\<close> fills it.\<close>

definition fs_open :: "string \<Rightarrow> unit io" where
  "fs_open p = and_then (attempt OSError) (\<lambda>_ w. (Inr (), w\<lparr>fs := (fs w)(p \<mapsto> [])\<rparr>))"

definition fs_write :: "string \<Rightarrow> bytes \<Rightarrow> unit io" where
  "fs_write p b = and_then (attempt OSError) (\<lambda>_ w. (Inr (), w\<lparr>fs := (fs w)(p \<mapsto> b)\<rparr>))"

definition write_file :: "string \<Rightarrow> bytes \<Rightarrow> unit io" where
  "write_file p b = and_then (fs_open p) (\<lambda>_. fs_write p b)"

definition os_remove :: "string \<Rightarrow> unit io" where
  "os_remove p = and_then (attempt OSError) (\<lambda>_ w. (Inr (), w\<lparr>fs := (fs w)(p := None)\<rparr>))"

subsection \<open>Object store\<close>

definition put_object :: "string \<Rightarrow> bytes \<Rightarrow> string \<Rightarrow> unit io" where
  "put_object k b ctype =
     and_then (attempt ClientError) (\<lambda>_ w. (Inr (), w\<lparr>s3 := (s3 w)(k \<mapsto> (b, ctype))\<rparr>))"

definition delete_object :: "string \<Rightarrow> unit io" where
  "delete_object k = and_then (attempt ClientError) (\<lambda>_ w. (Inr (), w\<lparr>s3 := (s3 w)(k := None)\<rparr>))"

subsection \<open>Database session\<close>

text \<open>
  Column defaults of \<open>models.Track\<close>, applied when the row is inserted to every
  attribute that holds no value: \<open>description = ""\<close>, \<open>duration = 0\<close> and
  \<open>mime_type = "audio/mpeg"\<close> (\<open>created_at\<close> and \<open>is_public\<close> are not part of the record).
\<close>

definition insert_defaults :: "track \<Rightarrow> track" where
  "insert_defaults t =
     t\<lparr>description := (case description t of None \<Rightarrow> Some [] | Some d \<Rightarrow> Some d),
       duration := (case duration t of None \<Rightarrow> Some 0 | Some d \<Rightarrow> Some d),
       mime_type := (case mime_type t of None \<Rightarrow> Some ''audio/mpeg'' | Some m \<Rightarrow> Some m)\<rparr>"

text \<open>
  \<open>db.session.add(track); db.session.flush()\<close>: a new object gets its primary key and
  its row is written in the open transaction; a known object has its row rewritten.
\<close>

definition session_add_flush :: "track \<Rightarrow> world \<Rightarrow> (exn + track) \<times> world" where
  "session_add_flush t =
     and_then (attempt SQLAlchemyError) (\<lambda>_ w.
       (case track_id t of
          None \<Rightarrow>
            (let t' = insert_defaults (t\<lparr>track_id := Some (next_id w)\<rparr>)
             in (Inr t', w\<lparr>txn := (txn w)(next_id w \<mapsto> t'), next_id := Suc (next_id w)\<rparr>))
        | Some i \<Rightarrow> (Inr t, w\<lparr>txn := (txn w)(i \<mapsto> t)\<rparr>)))"

text \<open>An object is in the session when the session has written or loaded its row.\<close>

definition in_session :: "track \<Rightarrow> world \<Rightarrow> bool" where
  "in_session t w =
     (case track_id t of None \<Rightarrow> False | Some i \<Rightarrow> i \<in> dom (txn w) \<union> dom (rows w))"

text \<open>
  \<open>db.session.commit()\<close>: pending changes of an object in the session are flushed, then
  the transaction's rows become the committed ones.
\<close>

definition session_commit :: "track \<Rightarrow> unit io" where
  "session_commit t =
     and_then (attempt SQLAlchemyError) (\<lambda>_ w.
       (let pending = (case track_id t of
                         Some i \<Rightarrow> if in_session t w then (txn w)(i \<mapsto> t) else txn w
                       | None \<Rightarrow> txn w)
        in (Inr (), w\<lparr>rows := rows w ++ pending, txn := Map.empty\<rparr>)))"

definition session_rollback :: "world \<Rightarrow> world" where
  "session_rollback w = w\<lparr>txn := Map.empty\<rparr>"

definition flash :: "flash_message \<Rightarrow> string \<Rightarrow> world \<Rightarrow> world" where
  "flash m category w = w\<lparr>flashes := flashes w @ [(m, category)]\<rparr>"

definition log_exception :: "string \<Rightarrow> world \<Rightarrow> world" where
  "log_exception m w = w\<lparr>logged := logged w @ [m]\<rparr>"

text \<open>\<open>str(n)\<close> for a non-negative integer.\<close>

fun str_nat :: "nat \<Rightarrow> string" where
  "str_nat n =
     (if n < 10 then [''0123456789'' ! n]
      else str_nat (n div 10) @ [''0123456789'' ! (n mod 10)])"

section \<open>utils.process_track_upload\<close>

text \<open>
  The three branches on \<open>STORAGE_MODE\<close> that write the blobs. In the object-store and
  filesystem branches the track is not touched while the blobs are written: the branch
  returns the three locators and the caller assigns them afterwards, as the source does
  after its last write.
\<close>

definition store_s3 :: "'a libs \<Rightarrow> nat \<Rightarrow> string \<Rightarrow> bytes \<Rightarrow> bytes \<Rightarrow> bytes
    \<Rightarrow> (string \<times> string \<times> string) io" where
  "store_s3 L owner ext orig_bytes mp3 preview =
     and_then (uuid4 L) (\<lambda>u.
       (let key_base = ''tracks/'' @ str_nat owner @ ''/'' @ u in
        and_then (put_object (key_base @ ''/original.'' @ ext) orig_bytes (''audio/'' @ ext)) (\<lambda>_.
        and_then (put_object (key_base @ ''/stream.mp3'') mp3 ''audio/mpeg'') (\<lambda>_.
        and_then (put_object (key_base @ ''/preview.mp3'') preview ''audio/mpeg'') (\<lambda>_ w.
          (Inr (key_base @ ''/original.'' @ ext,
                key_base @ ''/stream.mp3'',
                key_base @ ''/preview.mp3''), w))))))"

definition store_local :: "'a libs \<Rightarrow> config \<Rightarrow> nat \<Rightarrow> string \<Rightarrow> bytes \<Rightarrow> bytes \<Rightarrow> bytes
    \<Rightarrow> (string \<times> string \<times> string) io" where
  "store_local L cfg owner ext orig_bytes mp3 preview =
     (let base = path_join (upload_folder cfg) (str_nat owner) in
      and_then (mkdir base) (\<lambda>_.
      and_then (uuid4 L) (\<lambda>u1.
        (let orig_path = path_join base (u1 @ ''_orig.'' @ ext) in
         and_then (write_file orig_path orig_bytes) (\<lambda>_.
         and_then (uuid4 L) (\<lambda>u2.
           (let mp3_path = path_join base (u2 @ ''_stream.mp3'') in
            and_then (write_file mp3_path mp3) (\<lambda>_.
            and_then (uuid4 L) (\<lambda>u3.
              (let preview_path = path_join base (u3 @ ''_preview.mp3'') in
               and_then (write_file preview_path preview) (\<lambda>_ w.
                 (Inr (orig_path, mp3_path, preview_path), w))))))))))))"

definition store_blobs :: "'a libs \<Rightarrow> config \<Rightarrow> string \<Rightarrow> bytes \<Rightarrow> bytes \<Rightarrow> bytes
    \<Rightarrow> track \<Rightarrow> world \<Rightarrow> (exn + unit) \<times> track \<times> world" where
  "store_blobs L cfg ext orig_bytes mp3 preview t w =
     (let mode = storage_mode cfg in
      if mode = ''postgres'' then
        (Inr (), t\<lparr>original_file := Some orig_bytes, mp3_file := Some mp3,
                   preview_file := Some preview\<rparr>, w)
      else if mode = ''s3'' then
        (case store_s3 L (owner_id t) ext orig_bytes mp3 preview w of
           (Inl e, w') \<Rightarrow> (Inl e, t, w')
         | (Inr (k1, k2, k3), w') \<Rightarrow>
             (Inr (), t\<lparr>s3_key := Some k1, s3_mp3_key := Some k2, s3_preview_key := Some k3\<rparr>, w'))
      else
        (case store_local L cfg (owner_id t) ext orig_bytes mp3 preview w of
           (Inl e, w') \<Rightarrow> (Inl e, t, w')
         | (Inr (p1, p2, p3), w') \<Rightarrow>
             (Inr (), t\<lparr>file_path := Some p1, mp3_path := Some p2, preview_path := Some p3\<rparr>, w')))"

text \<open>
  The whole function. The result carries the track and the upload as the call leaves
  them, also when it raises: the caller keeps its references to both objects.
\<close>

definition process_track_upload :: "'a libs \<Rightarrow> config \<Rightarrow> track \<Rightarrow> file_storage \<Rightarrow> world
    \<Rightarrow> (exn + unit) \<times> track \<times> file_storage \<times> world" where
  "process_track_upload L cfg t f w =
     (let fname = secure_filename L (filename f) in
      case py_index (rsplit1 (CHR ''.'') fname) 1 of
        Inl e \<Rightarrow> (Inl e, t, f, w)
      | Inr x \<Rightarrow>
         (let ext = lower x;
              (orig_bytes, f1) = file_read f
          in case from_file L orig_bytes ext of
               None \<Rightarrow> (Inl CouldntDecodeError, t, f1, w)
             | Some audio \<Rightarrow>
                (let duration_ms = int (audio_len L audio);
                     t1 = t\<lparr>duration := Some (duration_ms div 1000),
                            original_filename := Some fname\<rparr>
                 in case export L audio ''mp3'' (transcode_bitrate cfg) of
                      None \<Rightarrow> (Inl CouldntEncodeError, t1, f1, w)
                    | Some mp3 \<Rightarrow>
                       (let preview_len = preview_duration cfg * 1000
                        in case getitem_upto L audio preview_len of
                             None \<Rightarrow> (Inl TooManyMissingFrames, t1, f1, w)
                           | Some preview_seg \<Rightarrow>
                              (case export L preview_seg ''mp3'' (transcode_bitrate cfg) of
                                 None \<Rightarrow> (Inl CouldntEncodeError, t1, f1, w)
                               | Some preview \<Rightarrow>
                                  (case store_blobs L cfg ext orig_bytes mp3 preview t1 w of
                                     (Inl e, t2, w2) \<Rightarrow> (Inl e, t2, f1, w2)
                                   | (Inr _, t2, w2) \<Rightarrow>
                                      (let t3 = t2\<lparr>mime_type := Some ''audio/mpeg''\<rparr>
                                       in case session_add_flush t3 w2 of
                                            (Inl e, w3) \<Rightarrow> (Inl e, t3, f1, w3)
                                          | (Inr t4, w3) \<Rightarrow> (Inr (), t4, f1, w3))))))))"

section \<open>utils.get_file_stream_response\<close>

text \<open>
  The module calls \<open>send_file\<close> and \<open>abort\<close>, but it neither imports nor defines these
  names (\<open>app.py\<close> imports them from Flask into its own namespace only). Looking up an
  unbound global name raises \<open>NameError\<close>, before any argument of the call is evaluated:
  that is what both calls do in this module. \<open>HTTP404\<close> is the exception that the
  \<open>abort(404)\<close> of Flask raises; no call in this module raises it.
\<close>

record response =
  body :: bytes
  mimetype :: string
  download_name :: "string option"

datatype payload = FromBytes bytes | FromPath string

definition send_file :: "payload \<Rightarrow> string \<Rightarrow> string option \<Rightarrow> exn + response option" where
  "send_file p mt dn = Inl NameError"

definition abort :: "nat \<Rightarrow> exn + response option" where
  "abort code = Inl NameError"

definition str_or :: "string option \<Rightarrow> string \<Rightarrow> string" where
  "str_or a b = (if truthy a then the a else b)"

text \<open>
  The \<open>if\<close> chain of the \<open>postgres\<close> branch: the blob, content type and download name
  that it hands to \<open>send_file\<close>, or \<open>None\<close> when no branch of the chain is taken.
\<close>

definition select_blob :: "track \<Rightarrow> string \<Rightarrow> (bytes \<times> string \<times> string option) option" where
  "select_blob t variant =
     (if variant = ''mp3'' \<and> truthy (mp3_file t) then
        Some (the (mp3_file t), ''audio/mpeg'', Some (title t @ ''.mp3''))
      else if variant = ''preview'' \<and> truthy (preview_file t) then
        Some (the (preview_file t), ''audio/mpeg'', Some (title t @ ''_preview.mp3''))
      else if truthy (original_file t) then
        Some (the (original_file t), str_or (mime_type t) ''application/octet-stream'',
              original_filename t)
      else None)"

text \<open>The value of \<open>key\<close> in the \<open>s3\<close> branch and of \<open>path\<close> in the last branch.\<close>

definition select_key :: "track \<Rightarrow> string \<Rightarrow> string option" where
  "select_key t variant =
     (if variant = ''mp3'' then py_or (s3_mp3_key t) (s3_key t)
      else if variant = ''preview'' then py_or (s3_preview_key t) (s3_mp3_key t)
      else s3_key t)"

definition select_path :: "track \<Rightarrow> string \<Rightarrow> string option" where
  "select_path t variant =
     (if variant = ''mp3'' then py_or (mp3_path t) (file_path t)
      else if variant = ''preview'' then py_or (preview_path t) (mp3_path t)
      else file_path t)"

text \<open>
  The whole function. It only reads the world: \<open>get_object\<close> raises \<open>ClientError\<close> for a key
  that the bucket does not hold. A call that runs off the end of the function returns
  \<open>None\<close>.
\<close>

definition get_file_stream_response :: "config \<Rightarrow> track \<Rightarrow> string \<Rightarrow> world
    \<Rightarrow> exn + response option" where
  "get_file_stream_response cfg t variant w =
     (let mode = storage_mode cfg in
      if mode = ''postgres'' then
        (case select_blob t variant of
           Some (b, mt, dn) \<Rightarrow> send_file (FromBytes b) mt dn
         | None \<Rightarrow> Inr None)
      else if mode = ''s3'' then
        (let key = select_key t variant
         in if \<not> truthy key then abort 404
            else (case s3 w (the key) of
                    None \<Rightarrow> Inl ClientError
                  | Some (b, content_type) \<Rightarrow>
                      send_file (FromBytes b) content_type (Some (title t))))
      else
        (let path = select_path t variant
         in if \<not> truthy path then abort 404
            else if fs w (the path) = None then abort 404
            else send_file (FromPath (the path)) (str_or (mime_type t) ''audio/mpeg'')
                   (Some (basename (the path)))))"

section \<open>utils.storage_delete\<close>

text \<open>
  The loop of the filesystem branch, over the three paths and the \<open>avatar_filename\<close> that a
  track does not have, and the loop of the object-store branch over the keys that are set.
\<close>

fun remove_paths :: "string option list \<Rightarrow> unit io" where
  "remove_paths [] w = (Inr (), w)"
| "remove_paths (p # ps) w =
     (if truthy p \<and> fs w (the p) \<noteq> None
      then and_then (os_remove (the p)) (\<lambda>_. remove_paths ps) w
      else remove_paths ps w)"

fun delete_keys :: "string list \<Rightarrow> unit io" where
  "delete_keys [] w = (Inr (), w)"
| "delete_keys (k # ks) w = and_then (delete_object k) (\<lambda>_. delete_keys ks) w"

text \<open>The body of the \<open>try\<close>.\<close>

definition storage_delete_body :: "config \<Rightarrow> track \<Rightarrow> world \<Rightarrow> (exn + unit) \<times> track \<times> world" where
  "storage_delete_body cfg t w =
     (let mode = storage_mode cfg in
      if mode = ''local'' then
        (case remove_paths [file_path t, mp3_path t, preview_path t, None] w of
           (r, w') \<Rightarrow> (r, t, w'))
      else if mode = ''s3'' then
        (let keys = map the (filter truthy [s3_key t, s3_mp3_key t, s3_preview_key t])
         in case delete_keys keys w of (r, w') \<Rightarrow> (r, t, w'))
      else
        (let t' = t\<lparr>original_file := None, mp3_file := None, preview_file := None\<rparr>
         in case session_commit t' w of (r, w') \<Rightarrow> (r, t', w')))"

text \<open>\<open>except Exception as e: logger.exception(...)\<close>: the exception is logged and dropped.\<close>

definition storage_delete :: "config \<Rightarrow> track \<Rightarrow> world \<Rightarrow> (exn + unit) \<times> track \<times> world" where
  "storage_delete cfg t w =
     (case storage_delete_body cfg t w of
        (Inl e, t', w') \<Rightarrow> (Inr (), t', log_exception ''Error cleaning storage'' w')
      | (Inr u, t', w') \<Rightarrow> (Inr u, t', w'))"

section \<open>app.upload\<close>

datatype view = RenderUpload | RedirectUpload | RedirectTrack "nat option"

text \<open>
  The submitted \<open>forms.UploadForm\<close>: whether the request submits a form, whether its CSRF
  token is good, and the data of its fields. An upload without a selected file has the
  empty name.
\<close>

record upload_form =
  is_submitted :: bool
  csrf_valid :: bool
  form_title :: "string option"
  form_description :: "string option"
  form_track :: file_storage

text \<open>
  The validators of the form. \<open>Optional\<close> accepts a field without data, or with blank data,
  and stops; \<open>Length(max=n)\<close> rejects longer data. \<open>FileRequired\<close> rejects an upload without
  a name and stops; \<open>FileAllowed\<close> accepts a name that, lower-cased, ends with a dot and one
  of the listed extensions.
\<close>

definition endswith :: "string \<Rightarrow> string \<Rightarrow> bool" where
  "endswith s suf = (take (length suf) (rev s) = rev suf)"

definition is_blank :: "string \<Rightarrow> bool" where
  "is_blank s = list_all (\<lambda>c. c \<in> set [CHR '' '', CHR 0x09, CHR 0x0A, CHR 0x0B, CHR 0x0C, CHR 0x0D]) s"

definition optional_length_errors :: "nat \<Rightarrow> string option \<Rightarrow> string list" where
  "optional_length_errors n d =
     (case d of
        None \<Rightarrow> []
      | Some s \<Rightarrow>
          if is_blank s then []
          else if n < length s
          then [''Field cannot be longer than '' @ str_nat n @ '' characters.'']
          else [])"

definition upload_set :: "string list" where
  "upload_set = [''mp3'', ''wav'', ''flac'', ''m4a'', ''ogg'', ''aac'']"

definition FileAllowed :: "string list \<Rightarrow> string \<Rightarrow> bool" where
  "FileAllowed exts name = list_ex (\<lambda>x. endswith (lower name) (''.'' @ x)) exts"

definition track_field_errors :: "file_storage \<Rightarrow> string list" where
  "track_field_errors f =
     (if filename f = [] then [''This field is required.'']
      else if \<not> FileAllowed upload_set (filename f) then [''Audio files only!'']
      else [])"

text \<open>\<open>form.validate_on_submit()\<close>: the form is submitted and no validator reports an error.\<close>

definition validate_on_submit :: "upload_form \<Rightarrow> bool" where
  "validate_on_submit form =
     (is_submitted form \<and> csrf_valid form
      \<and> optional_length_errors 255 (form_title form) = []
      \<and> optional_length_errors 2000 (form_description form) = []
      \<and> track_field_errors (form_track form) = [])"

text \<open>The \<open>except\<close> branch of the view: roll back, clean the storage, log, flash.\<close>

definition upload_failed :: "config \<Rightarrow> exn \<Rightarrow> track \<Rightarrow> file_storage \<Rightarrow> world
    \<Rightarrow> (exn + view) \<times> track \<times> file_storage \<times> world" where
  "upload_failed cfg e t f w =
     (case storage_delete cfg t (session_rollback w) of
        (Inl e', t', w') \<Rightarrow> (Inl e', t', f, w')
      | (Inr _, t', w') \<Rightarrow>
          (Inr RenderUpload, t', f,
           flash (UploadFailed e) ''danger'' (log_exception ''Upload failed'' w')))"

text \<open>The \<open>try\<close> statement of the view, from the call of the ingestion on.\<close>

definition upload_try :: "'a libs \<Rightarrow> config \<Rightarrow> track \<Rightarrow> file_storage \<Rightarrow> world
    \<Rightarrow> (exn + view) \<times> track \<times> file_storage \<times> world" where
  "upload_try L cfg t f w =
     (case process_track_upload L cfg t f w of
        (Inl e, t', f', w') \<Rightarrow> upload_failed cfg e t' f' w'
      | (Inr _, t', f', w') \<Rightarrow>
          (case session_commit t' w' of
             (Inl e, w'') \<Rightarrow> upload_failed cfg e t' f' w''
           | (Inr _, w'') \<Rightarrow>
               (Inr (RedirectTrack (track_id t')), t', f',
                flash UploadSuccessful ''success'' w'')))"

definition upload :: "'a libs \<Rightarrow> config \<Rightarrow> nat \<Rightarrow> upload_form \<Rightarrow> world
    \<Rightarrow> (exn + view) \<times> file_storage \<times> world" where
  "upload L cfg current_user_id form w =
     (let f = form_track form in
      if validate_on_submit form then
        (case allowed_file (filename f) (allowed_extensions cfg) of
           Inl e \<Rightarrow> (Inl e, f, w)
         | Inr ok \<Rightarrow>
            if \<not> ok then (Inr RedirectUpload, f, flash FileTypeNotAllowed ''danger'' w)
            else
              (let fname = secure_filename L (filename f);
                   ttl = str_or (form_title form) (hd (rsplit1 (CHR ''.'') fname));
                   t = Track current_user_id ttl (form_description form)
               in case session_add_flush t w of
                    (Inl e, w1) \<Rightarrow> (Inl e, f, w1)
                  | (Inr t1, w1) \<Rightarrow>
                      (case upload_try L cfg t1 f w1 of (r, t2, f2, w2) \<Rightarrow> (r, f2, w2))))
      else (Inr RenderUpload, f, w))"

section \<open>Vocabulary of the properties\<close>

text \<open>
  The locator fields that the ingestion fills under a configuration: the blobs for
  \<open>postgres\<close>, the keys for \<open>s3\<close>, the paths for every other mode.
\<close>

definition locators_null :: "config \<Rightarrow> track \<Rightarrow> bool" where
  "locators_null cfg t =
     (if storage_mode cfg = ''postgres''
      then original_file t = None \<and> mp3_file t = None \<and> preview_file t = None
      else if storage_mode cfg = ''s3''
      then s3_key t = None \<and> s3_mp3_key t = None \<and> s3_preview_key t = None
      else file_path t = None \<and> mp3_path t = None \<and> preview_path t = None)"

definition locators_set :: "config \<Rightarrow> track \<Rightarrow> bool" where
  "locators_set cfg t =
     (if storage_mode cfg = ''postgres''
      then original_file t \<noteq> None \<and> mp3_file t \<noteq> None \<and> preview_file t \<noteq> None
      else if storage_mode cfg = ''s3''
      then s3_key t \<noteq> None \<and> s3_mp3_key t \<noteq> None \<and> s3_preview_key t \<noteq> None
      else file_path t \<noteq> None \<and> mp3_path t \<noteq> None \<and> preview_path t \<noteq> None)"

text \<open>A track that no ingestion has touched: all nine locator fields are unset.\<close>

definition locators_unset :: "track \<Rightarrow> bool" where
  "locators_unset t =
     (file_path t = None \<and> mp3_path t = None \<and> preview_path t = None \<and>
      original_file t = None \<and> mp3_file t = None \<and> preview_file t = None \<and>
      s3_key t = None \<and> s3_mp3_key t = None \<and> s3_preview_key t = None)"

text \<open>Whether the locator of the stream variant is present.\<close>

definition has_stream_locator :: "config \<Rightarrow> track \<Rightarrow> bool" where
  "has_stream_locator cfg t =
     (if storage_mode cfg = ''postgres'' then truthy (mp3_file t)
      else if storage_mode cfg = ''s3'' then truthy (s3_mp3_key t)
      else truthy (mp3_path t))"

section \<open>Concrete instances for the closed examples\<close>

text \<open>
  A toy codec (a one-byte header, then one byte per millisecond; an empty upload does not
  decode; a slice keeps the leading milliseconds), three fixed identifiers, the default
  configuration, an empty world with a given fault schedule, two uploads and the form that
  submits an upload.
\<close>

definition toy_libs :: "nat list libs" where
  "toy_libs =
     \<lparr> secure_filename = (\<lambda>s. s),
       from_file = (\<lambda>b fmt. if b = [] then None else Some (map unat (tl b))),
       audio_len = length,
       getitem_upto = (\<lambda>a n. Some (take (nat n) a)),
       export = (\<lambda>a fmt bitrate. Some (map of_nat a)),
       uuid4_hex = (\<lambda>n. if n = 0 then ''a1'' else if n = 1 then ''b2'' else ''c3'') \<rparr>"

definition base_config :: "string \<Rightarrow> config" where
  "base_config mode =
     \<lparr> storage_mode = mode, upload_folder = ''uploads'', preview_duration = 30,
       transcode_bitrate = ''192k'',
       allowed_extensions = {''mp3'', ''wav'', ''flac'', ''m4a'', ''ogg'', ''aac''} \<rparr>"

definition empty_world :: "bool list \<Rightarrow> world" where
  "empty_world fl =
     \<lparr> fs = Map.empty, s3 = Map.empty, rows = Map.empty, txn = Map.empty, next_id = 1,
       faults = fl, uuid_ctr = 0, flashes = [], logged = [] \<rparr>"

definition song :: file_storage where
  "song = \<lparr> filename = ''song.mp3'', content = [82, 1, 2, 3], consumed = 0 \<rparr>"

definition header_only :: file_storage where
  "header_only = \<lparr> filename = ''empty.wav'', content = [82], consumed = 0 \<rparr>"

definition submitted_form :: "file_storage \<Rightarrow> upload_form" where
  "submitted_form f =
     \<lparr> is_submitted = True, csrf_valid = True, form_title = None, form_description = None,
       form_track = f \<rparr>"

declare str_nat.simps [simp del]

section \<open>Facts about splitting at the last dot\<close>


lemma rsplit1_decompose:
  assumes "c \<in> set s"
  shows "\<exists>pre suf. rsplit1 c s = [pre, suf] \<and> s = pre @ [c] @ suf \<and> c \<notin> set suf"
proof -
  let ?P = "\<lambda>x. x \<noteq> c"
  let ?suf = "rev (takeWhile ?P (rev s))"
  let ?pre = "rev (tl (dropWhile ?P (rev s)))"
  from assms have ne: "dropWhile ?P (rev s) \<noteq> []"
    by (simp add: dropWhile_eq_Nil_conv)
  then have hd: "hd (dropWhile ?P (rev s)) = c"
    using hd_dropWhile [of ?P "rev s"] by simp
  have "rev s = takeWhile ?P (rev s) @ dropWhile ?P (rev s)"
    by simp
  also have "dropWhile ?P (rev s) = c # tl (dropWhile ?P (rev s))"
    using ne hd by (cases "dropWhile ?P (rev s)") auto
  finally have "rev (rev s) = rev (takeWhile ?P (rev s) @ c # tl (dropWhile ?P (rev s)))"
    by simp
  then have s: "s = ?pre @ [c] @ ?suf"
    by simp
  have "c \<notin> set ?suf"
    using set_takeWhileD [of c ?P "rev s"] by auto
  with s assms show ?thesis
    unfolding rsplit1_def by auto
qed

lemma takeWhile_upto_sep:
  "c \<notin> set xs \<Longrightarrow> takeWhile (\<lambda>x. x \<noteq> c) (xs @ c # ys) = xs"
  by (induction xs) auto

lemma split_last_unique:
  assumes "pre @ [c] @ suf = pre' @ [c] @ suf'" and "c \<notin> set suf" and "c \<notin> set suf'"
  shows "pre = pre' \<and> suf = suf'"
proof -
  let ?P = "\<lambda>x. x \<noteq> c"
  from assms(1) have r: "rev suf @ c # rev pre = rev suf' @ c # rev pre'"
    by (metis append_Cons append_Nil append_assoc rev.simps(2) rev_append rev_rev_ident)
  have a: "takeWhile ?P (rev suf @ c # rev pre) = rev suf"
    using assms(2) by (simp add: takeWhile_upto_sep)
  have b: "takeWhile ?P (rev suf' @ c # rev pre') = rev suf'"
    using assms(3) by (simp add: takeWhile_upto_sep)
  from r a b have "rev suf = rev suf'" by simp
  then have "suf = suf'" by simp
  with assms(1) show ?thesis by simp
qed

lemma allowed_file_char:
  "allowed_file name allowed =
     Inr (\<exists>pre suf. name = pre @ ''.'' @ suf \<and> CHR ''.'' \<notin> set suf \<and> lower suf \<in> allowed)"
proof (cases "CHR ''.'' \<in> set name")
  case False
  then have "\<not> (\<exists>pre suf. name = pre @ ''.'' @ suf)" by auto
  with False show ?thesis by (simp add: allowed_file_def)
next
  case True
  from rsplit1_decompose [OF True] obtain pre suf where
    r: "rsplit1 (CHR ''.'') name = [pre, suf]" and
    f: "name = pre @ [CHR ''.''] @ suf" and n: "CHR ''.'' \<notin> set suf"
    by blast
  have "(\<exists>p s. name = p @ ''.'' @ s \<and> CHR ''.'' \<notin> set s \<and> lower s \<in> allowed)
        = (lower suf \<in> allowed)"
  proof
    assume "\<exists>p s. name = p @ ''.'' @ s \<and> CHR ''.'' \<notin> set s \<and> lower s \<in> allowed"
    then obtain p s where
      ps: "name = p @ [CHR ''.''] @ s" "CHR ''.'' \<notin> set s" "lower s \<in> allowed"
      by auto
    from f ps(1) have "pre @ [CHR ''.''] @ suf = p @ [CHR ''.''] @ s" by simp
    from split_last_unique [OF this n ps(2)] ps(3) show "lower suf \<in> allowed" by simp
  next
    assume "lower suf \<in> allowed"
    with f n show "\<exists>p s. name = p @ ''.'' @ s \<and> CHR ''.'' \<notin> set s \<and> lower s \<in> allowed"
      by auto
  qed
  with True r show ?thesis
    by (simp add: allowed_file_def py_index_def)
qed

text \<open>
  C10. \<open>allowed_file\<close> never raises, and it answers true exactly when the name has a
  dot and the part after its last dot, lower-cased, is in the allow-list. A name without a
  dot is rejected although the whole name is an allowed extension, and the extension is
  matched without regard to case.
\<close>

theorem allowed_file_iff:
  "allowed_file name allowed =
     Inr (\<exists>pre suf. name = pre @ ''.'' @ suf \<and> CHR ''.'' \<notin> set suf \<and> lower suf \<in> allowed)
   \<and> allowed_file ''mp3'' {''mp3'', ''wav''} = Inr False
   \<and> allowed_file ''song.MP3'' {''mp3'', ''wav''} = Inr True"
proof (intro conjI)
  show "allowed_file name allowed =
     Inr (\<exists>pre suf. name = pre @ ''.'' @ suf \<and> CHR ''.'' \<notin> set suf \<and> lower suf \<in> allowed)"
    by (rule allowed_file_char)
next
  show "allowed_file ''mp3'' {''mp3'', ''wav''} = Inr False"
    by (simp add: allowed_file_def)
next
  show "allowed_file ''song.MP3'' {''mp3'', ''wav''} = Inr True"
    by (simp add: allowed_file_def rsplit1_def py_index_def lower_def lower_char_def)
qed

section \<open>Effects of the primitive steps\<close>


lemma store_blobs_track:
  "store_blobs L cfg ext ob mp3 pv t w = (r, t', w') \<Longrightarrow>
     (\<exists>e. r = Inl e \<and> t' = t) \<or> (r = Inr () \<and> locators_set cfg t')"
  by (auto simp: store_blobs_def Let_def locators_set_def split: if_splits prod.splits sum.splits)

lemma session_add_flush_track:
  "session_add_flush t w = (Inr t', w') \<Longrightarrow>
     file_path t' = file_path t \<and> mp3_path t' = mp3_path t \<and> preview_path t' = preview_path t
   \<and> original_file t' = original_file t \<and> mp3_file t' = mp3_file t \<and> preview_file t' = preview_file t
   \<and> s3_key t' = s3_key t \<and> s3_mp3_key t' = s3_mp3_key t \<and> s3_preview_key t' = s3_preview_key t
   \<and> title t' = title t \<and> original_filename t' = original_filename t"
  by (auto simp: session_add_flush_def and_then_def attempt_def insert_defaults_def Let_def
      split: list.splits if_splits option.splits)


lemma locators_unset_null: "locators_unset t \<Longrightarrow> locators_null cfg t"
  by (simp add: locators_unset_def locators_null_def)

section \<open>Cleanup\<close>

lemma storage_delete_track:
  "storage_delete cfg t w = (r, t', w') \<Longrightarrow>
     r = Inr () \<and>
     t' = (if storage_mode cfg = ''local'' \<or> storage_mode cfg = ''s3'' then t
           else t\<lparr>original_file := None, mp3_file := None, preview_file := None\<rparr>)"
  by (auto simp: storage_delete_def storage_delete_body_def Let_def
      split: prod.splits sum.splits if_splits)

lemma remove_paths_no_faults:
  "faults w = [] \<Longrightarrow>
     remove_paths ps w =
       (Inr (), w\<lparr>fs := (\<lambda>p. if Some p \<in> set ps \<and> p \<noteq> [] then None else fs w p)\<rparr>)"
proof (induction ps arbitrary: w)
  case Nil
  then show ?case by simp
next
  case (Cons q ps)
  show ?case
  proof (cases "truthy q \<and> fs w (the q) \<noteq> None")
    case True
    let ?w1 = "w\<lparr>fs := (fs w)(the q := None)\<rparr>"
    have f1: "faults ?w1 = []" using Cons.prems by simp
    have "remove_paths (q # ps) w = remove_paths ps ?w1"
      using True Cons.prems by (simp add: and_then_def os_remove_def attempt_def)
    also have "\<dots> = (Inr (), ?w1\<lparr>fs := (\<lambda>p. if Some p \<in> set ps \<and> p \<noteq> [] then None else fs ?w1 p)\<rparr>)"
      by (rule Cons.IH [OF f1])
    also have "(\<lambda>p. if Some p \<in> set ps \<and> p \<noteq> [] then None else fs ?w1 p)
        = (\<lambda>p. if Some p \<in> set (q # ps) \<and> p \<noteq> [] then None else fs w p)"
      using True by (auto simp: truthy_def fun_eq_iff split: option.splits)
    finally show ?thesis by simp
  next
    case False
    have "remove_paths (q # ps) w = remove_paths ps w"
      using False by auto
    also have "\<dots> = (Inr (), w\<lparr>fs := (\<lambda>p. if Some p \<in> set ps \<and> p \<noteq> [] then None else fs w p)\<rparr>)"
      by (rule Cons.IH [OF Cons.prems])
    also have "(\<lambda>p. if Some p \<in> set ps \<and> p \<noteq> [] then None else fs w p)
        = (\<lambda>p. if Some p \<in> set (q # ps) \<and> p \<noteq> [] then None else fs w p)"
      using False by (auto simp: truthy_def fun_eq_iff split: option.splits)
    finally show ?thesis by simp
  qed
qed

lemma remove_paths_nothing_there:
  "(\<And>p. Some p \<in> set ps \<Longrightarrow> p \<noteq> [] \<Longrightarrow> fs w p = None) \<Longrightarrow> remove_paths ps w = (Inr (), w)"
  by (induction ps arbitrary: w) (auto simp: truthy_def split: option.splits)

lemma delete_keys_no_faults:
  "faults w = [] \<Longrightarrow>
     delete_keys ks w = (Inr (), w\<lparr>s3 := (\<lambda>k. if k \<in> set ks then None else s3 w k)\<rparr>)"
proof (induction ks arbitrary: w)
  case Nil
  then show ?case by simp
next
  case (Cons k ks)
  let ?w1 = "w\<lparr>s3 := (s3 w)(k := None)\<rparr>"
  have f1: "faults ?w1 = []" using Cons.prems by simp
  have "delete_keys (k # ks) w = delete_keys ks ?w1"
    using Cons.prems by (simp add: and_then_def delete_object_def attempt_def)
  also have "\<dots> = (Inr (), ?w1\<lparr>s3 := (\<lambda>j. if j \<in> set ks then None else s3 ?w1 j)\<rparr>)"
    by (rule Cons.IH [OF f1])
  also have "(\<lambda>j. if j \<in> set ks then None else s3 ?w1 j)
      = (\<lambda>j. if j \<in> set (k # ks) then None else s3 w j)"
    by (auto simp: fun_eq_iff)
  finally show ?case by simp
qed

lemma session_commit_no_faults:
  "faults w = [] \<Longrightarrow>
     session_commit t w =
       (Inr (), w\<lparr>rows := rows w ++ (case track_id t of
                         Some i \<Rightarrow> if in_session t w then (txn w)(i \<mapsto> t) else txn w
                       | None \<Rightarrow> txn w), txn := Map.empty\<rparr>)"
  by (simp add: session_commit_def and_then_def attempt_def Let_def)

lemma session_commit_twice:
  assumes "faults w = []" and "session_commit t w = (r, w')"
  shows "session_commit t w' = (Inr (), w')"
proof -
  from assms have w': "w' = w\<lparr>rows := rows w ++ (case track_id t of
                         Some i \<Rightarrow> if in_session t w then (txn w)(i \<mapsto> t) else txn w
                       | None \<Rightarrow> txn w), txn := Map.empty\<rparr>"
    by (simp add: session_commit_no_faults)
  then have f: "faults w' = []" using assms(1) by simp
  have "rows w' ++ (case track_id t of
                         Some i \<Rightarrow> if in_session t w' then (txn w')(i \<mapsto> t) else txn w'
                       | None \<Rightarrow> txn w') = rows w'"
  proof (cases "track_id t")
    case None
    then show ?thesis by (simp add: w')
  next
    case (Some i)
    show ?thesis
    proof (cases "in_session t w'")
      case False
      then show ?thesis using Some by (simp add: w')
    next
      case True
      then have "i \<in> dom (rows w')" using Some by (simp add: in_session_def w')
      then have "in_session t w"
        using Some by (auto simp: w' in_session_def split: if_splits)
      then have "rows w' i = Some t" using Some by (simp add: w')
      then have "rows w' ++ [i \<mapsto> t] = rows w'"
        by (auto simp: fun_eq_iff map_add_def)
      moreover have "txn w' = Map.empty" by (simp add: w')
      ultimately show ?thesis using Some True by simp
    qed
  qed
  moreover have "txn w' = Map.empty" by (simp add: w')
  ultimately show ?thesis
    using f by (simp add: session_commit_no_faults)
qed

lemma storage_delete_twice:
  assumes "faults w = []" and "storage_delete cfg t w = (r, t', w')"
  shows "storage_delete cfg t' w' = (Inr (), t', w')"
proof -
  consider (loc) "storage_mode cfg = ''local''"
    | (s3) "storage_mode cfg \<noteq> ''local''" "storage_mode cfg = ''s3''"
    | (db) "storage_mode cfg \<noteq> ''local''" "storage_mode cfg \<noteq> ''s3''"
    by blast
  then show ?thesis
  proof cases
    case loc
    let ?ps = "[file_path t, mp3_path t, preview_path t, None]"
    from assms loc have t': "t' = t"
      and w': "w' = w\<lparr>fs := (\<lambda>p. if Some p \<in> set ?ps \<and> p \<noteq> [] then None else fs w p)\<rparr>"
      by (auto simp add: storage_delete_def storage_delete_body_def remove_paths_no_faults
          simp del: remove_paths.simps)
    have "remove_paths ?ps w' = (Inr (), w')"
      by (rule remove_paths_nothing_there) (simp add: w')
    then show ?thesis
      using loc by (simp add: t' storage_delete_def storage_delete_body_def del: remove_paths.simps)
  next
    case s3
    let ?ks = "map the (filter truthy [s3_key t, s3_mp3_key t, s3_preview_key t])"
    from assms s3 have t': "t' = t"
      and w': "w' = w\<lparr>s3 := (\<lambda>k. if k \<in> set ?ks then None else s3 w k)\<rparr>"
      by (auto simp add: storage_delete_def storage_delete_body_def delete_keys_no_faults Let_def)
    have f: "faults w' = []" using assms(1) by (simp add: w')
    have "(\<lambda>k. if k \<in> set ?ks then None else s3 w' k) = s3 w'"
      by (auto simp: w' fun_eq_iff)
    then have "delete_keys ?ks w' = (Inr (), w')"
      by (simp add: delete_keys_no_faults [OF f])
    then show ?thesis
      using s3 by (simp add: t' storage_delete_def storage_delete_body_def Let_def)
  next
    case db
    let ?t = "t\<lparr>original_file := None, mp3_file := None, preview_file := None\<rparr>"
    from assms db have t': "t' = ?t"
      by (auto simp: storage_delete_def storage_delete_body_def Let_def
          split: prod.splits sum.splits)
    from assms db have "\<exists>r0. session_commit ?t w = (r0, w')"
      by (auto simp: storage_delete_def storage_delete_body_def Let_def session_commit_no_faults)
    then obtain r0 where "session_commit ?t w = (r0, w')" ..
    from session_commit_twice [OF assms(1) this]
    show ?thesis
      using db by (simp add: t' storage_delete_def storage_delete_body_def Let_def)
  qed
qed

text \<open>
  C7. \<open>storage_delete\<close> returns normally for every track, configuration and world,
  whatever the fault schedule: on a first call, on a second call with the same track, and
  on locators that are null or were never written. A second call in a world without
  faults changes nothing. In the \<open>except\<close> branch of the view the cleanup cannot raise, and
  the failure reported to the user stays the original exception of the ingestion.
\<close>

theorem storage_delete_total_idempotent:
  "fst (storage_delete cfg t w) = Inr ()
   \<and> fst (storage_delete cfg (fst (snd (storage_delete cfg t w)))
                               (snd (snd (storage_delete cfg t w)))) = Inr ()
   \<and> (faults w = [] \<longrightarrow>
        storage_delete cfg (fst (snd (storage_delete cfg t w))) (snd (snd (storage_delete cfg t w)))
          = storage_delete cfg t w)
   \<and> fst (upload_failed cfg e t f w) = Inr RenderUpload
   \<and> last (flashes (snd (snd (snd (upload_failed cfg e t f w))))) = (UploadFailed e, ''danger'')"
proof -
  have total: "fst (storage_delete c x v) = Inr ()" for c x v
    by (cases "storage_delete c x v") (simp add: storage_delete_track)
  have twice: "faults w = [] \<longrightarrow>
        storage_delete cfg (fst (snd (storage_delete cfg t w))) (snd (snd (storage_delete cfg t w)))
          = storage_delete cfg t w"
  proof
    assume f: "faults w = []"
    obtain r t' w' where sd: "storage_delete cfg t w = (r, t', w')"
      by (cases "storage_delete cfg t w") auto
    then have "r = Inr ()" by (simp add: storage_delete_track)
    with storage_delete_twice [OF f sd] sd
    show "storage_delete cfg (fst (snd (storage_delete cfg t w))) (snd (snd (storage_delete cfg t w)))
          = storage_delete cfg t w"
      by simp
  qed
  obtain r1 t1 w1 where sd1: "storage_delete cfg t (session_rollback w) = (r1, t1, w1)"
    by (cases "storage_delete cfg t (session_rollback w)") auto
  then have r1: "r1 = Inr ()" by (simp add: storage_delete_track)
  have uf: "fst (upload_failed cfg e t f w) = Inr RenderUpload"
    using sd1 r1 by (simp add: upload_failed_def)
  have fl: "last (flashes (snd (snd (snd (upload_failed cfg e t f w))))) = (UploadFailed e, ''danger'')"
    using sd1 r1 by (simp add: upload_failed_def flash_def)
  from total twice uf fl show ?thesis by blast
qed

theorem storage_delete_total_idempotent_witness:
  "faults ((empty_world [])\<lparr>fs := [''uploads/7/a1_orig.mp3'' \<mapsto> [1]]\<rparr>) = []
   \<and> storage_delete (base_config ''local'')
        (fst (snd (storage_delete (base_config ''local'')
           ((Track 7 ''t'' None)\<lparr>file_path := Some ''uploads/7/a1_orig.mp3''\<rparr>)
           ((empty_world [])\<lparr>fs := [''uploads/7/a1_orig.mp3'' \<mapsto> [1]]\<rparr>))))
        (snd (snd (storage_delete (base_config ''local'')
           ((Track 7 ''t'' None)\<lparr>file_path := Some ''uploads/7/a1_orig.mp3''\<rparr>)
           ((empty_world [])\<lparr>fs := [''uploads/7/a1_orig.mp3'' \<mapsto> [1]]\<rparr>))))
      = storage_delete (base_config ''local'')
           ((Track 7 ''t'' None)\<lparr>file_path := Some ''uploads/7/a1_orig.mp3''\<rparr>)
           ((empty_world [])\<lparr>fs := [''uploads/7/a1_orig.mp3'' \<mapsto> [1]]\<rparr>)"
  using storage_delete_total_idempotent
    [of "base_config ''local''"
        "(Track 7 ''t'' None)\<lparr>file_path := Some ''uploads/7/a1_orig.mp3''\<rparr>"
        "(empty_world [])\<lparr>fs := [''uploads/7/a1_orig.mp3'' \<mapsto> [1]]\<rparr>"]
  by (simp add: empty_world_def)

section \<open>Locator fields after an ingestion\<close>

lemma and_then_InlE:
  assumes "and_then m k w = (Inl e, w')"
  obtains "m w = (Inl e, w')" | a w1 where "m w = (Inr a, w1)" and "k a w1 = (Inl e, w')"
  using assms by (auto simp: and_then_def split: prod.splits sum.splits)

lemma attempt_InlD: "attempt e0 w = (Inl e, w') \<Longrightarrow> e = e0"
  by (auto simp: attempt_def split: list.splits if_splits)

lemma session_add_flush_InlD: "session_add_flush t w = (Inl e, w') \<Longrightarrow> e = SQLAlchemyError"
  by (auto simp: session_add_flush_def and_then_def attempt_def Let_def
      split: option.splits list.splits if_splits)

lemma write_file_InlD: "write_file p b w = (Inl e, w') \<Longrightarrow> e = OSError"
  by (auto simp: write_file_def fs_open_def fs_write_def and_then_def attempt_def
      split: list.splits if_splits)

lemma put_object_InlD: "put_object k b c w = (Inl e, w') \<Longrightarrow> e = ClientError"
  by (auto simp: put_object_def and_then_def attempt_def split: list.splits if_splits)

lemma mkdir_InlD: "mkdir p w = (Inl e, w') \<Longrightarrow> e = OSError"
  by (auto simp: mkdir_def dest: attempt_InlD)

lemma uuid4_not_Inl: "uuid4 L w \<noteq> (Inl e, w')"
  by (simp add: uuid4_def)

lemma and_then_raises:
  assumes "and_then m k w = (Inl e, w')"
    and "\<And>v e v'. m v = (Inl e, v') \<Longrightarrow> e \<in> E"
    and "\<And>a v e v'. k a v = (Inl e, v') \<Longrightarrow> e \<in> E"
  shows "e \<in> E"
  using assms(1)
  by (cases rule: and_then_InlE) (blast dest: assms(2) assms(3))+

lemma return_raises: "(Inr x, v) = (Inl e, v') \<Longrightarrow> e \<in> E"
  by simp

lemma store_local_InlD:
  assumes "store_local L cfg owner ext ob mp3 pv w = (Inl e, w')"
  shows "e = OSError"
proof -
  have m: "\<And>p v e v'. mkdir p v = (Inl e, v') \<Longrightarrow> e \<in> {OSError}"
    by (simp add: mkdir_InlD)
  have u: "\<And>v e v'. uuid4 L v = (Inl e, v') \<Longrightarrow> e \<in> {OSError}"
    by (simp add: uuid4_not_Inl)
  have f: "\<And>p b v e v'. write_file p b v = (Inl e, v') \<Longrightarrow> e \<in> {OSError}"
    by (simp add: write_file_InlD)
  from assms have "e \<in> {OSError}"
    unfolding store_local_def Let_def
    by (elim and_then_raises m u f return_raises)
  then show ?thesis by simp
qed

lemma store_s3_InlD:
  assumes "store_s3 L owner ext ob mp3 pv w = (Inl e, w')"
  shows "e = ClientError"
proof -
  have u: "\<And>v e v'. uuid4 L v = (Inl e, v') \<Longrightarrow> e \<in> {ClientError}"
    by (simp add: uuid4_not_Inl)
  have f: "\<And>k b c v e v'. put_object k b c v = (Inl e, v') \<Longrightarrow> e \<in> {ClientError}"
    by (simp add: put_object_InlD)
  from assms have "e \<in> {ClientError}"
    unfolding store_s3_def Let_def
    by (elim and_then_raises u f return_raises)
  then show ?thesis by simp
qed

lemma store_blobs_outcome:
  assumes "store_blobs L cfg ext ob mp3 pv t w = (r, t', w')"
  shows "(\<exists>e. r = Inl e \<and> e \<noteq> SQLAlchemyError \<and> t' = t) \<or> (r = Inr () \<and> locators_set cfg t')"
proof (cases r)
  case (Inr u)
  with store_blobs_track [OF assms] show ?thesis by auto
next
  case (Inl e)
  with store_blobs_track [OF assms] have t': "t' = t" by auto
  consider (db) "storage_mode cfg = ''postgres''"
    | (s3) "storage_mode cfg \<noteq> ''postgres''" "storage_mode cfg = ''s3''"
    | (loc) "storage_mode cfg \<noteq> ''postgres''" "storage_mode cfg \<noteq> ''s3''"
    by blast
  then have "e \<noteq> SQLAlchemyError"
  proof cases
    case db
    with assms Inl show ?thesis by (simp add: store_blobs_def)
  next
    case s3
    with assms Inl have "\<exists>v. store_s3 L (owner_id t) ext ob mp3 pv w = (Inl e, v)"
      by (auto simp: store_blobs_def split: prod.splits sum.splits)
    then show ?thesis by (auto dest: store_s3_InlD)
  next
    case loc
    with assms Inl have "\<exists>v. store_local L cfg (owner_id t) ext ob mp3 pv w = (Inl e, v)"
      by (auto simp: store_blobs_def split: prod.splits sum.splits)
    then show ?thesis by (auto dest: store_local_InlD)
  qed
  with Inl t' show ?thesis by simp
qed

lemma process_track_upload_locators:
  assumes unset: "locators_unset t"
    and run: "process_track_upload L cfg t f w = (r, t', f', w')"
  shows "(locators_null cfg t' \<and> (\<exists>e. r = Inl e \<and> e \<noteq> SQLAlchemyError))
       \<or> (locators_set cfg t' \<and> (r = Inr () \<or> r = Inl SQLAlchemyError))"
proof -
  let ?fname = "secure_filename L (filename f)"
  let ?ob = "drop (consumed f) (content f)"
  note defs = process_track_upload_def Let_def file_read_def
  have null0: "locators_null cfg t"
    using unset by (rule locators_unset_null)
  show ?thesis
  proof (cases "py_index (rsplit1 (CHR ''.'') ?fname) 1")
    case (Inl e0)
    then have "e0 = IndexError" by (simp add: py_index_def split: if_splits)
    moreover from run Inl have "r = Inl e0" "t' = t" by (simp_all add: defs)
    ultimately show ?thesis using null0 by simp
  next
    case (Inr x)
    show ?thesis
    proof (cases "from_file L ?ob (lower x)")
      case None
      with run Inr have "r = Inl CouldntDecodeError" "t' = t" by (simp_all add: defs)
      then show ?thesis using null0 by simp
    next
      case (Some audio)
      let ?t1 = "t\<lparr>duration := Some (int (audio_len L audio) div 1000),
                    original_filename := Some ?fname\<rparr>"
      have null1: "locators_null cfg ?t1"
        using null0 by (simp add: locators_null_def)
      show ?thesis
      proof (cases "export L audio ''mp3'' (transcode_bitrate cfg)")
        case None
        with run Inr Some have "r = Inl CouldntEncodeError" "t' = ?t1" by (simp_all add: defs)
        then show ?thesis using null1 by simp
      next
        case mp3: (Some mp3)
        show ?thesis
        proof (cases "getitem_upto L audio (preview_duration cfg * 1000)")
          case None
          with run Inr Some mp3 have "r = Inl TooManyMissingFrames" "t' = ?t1"
            by (simp_all add: defs)
          then show ?thesis using null1 by simp
        next
          case seg: (Some seg)
          show ?thesis
          proof (cases "export L seg ''mp3'' (transcode_bitrate cfg)")
            case None
            with run Inr Some mp3 seg have "r = Inl CouldntEncodeError" "t' = ?t1"
              by (simp_all add: defs)
            then show ?thesis using null1 by simp
          next
            case pv: (Some pv)
            obtain rs t2 w2 where st: "store_blobs L cfg (lower x) ?ob mp3 pv ?t1 w = (rs, t2, w2)"
              by (cases "store_blobs L cfg (lower x) ?ob mp3 pv ?t1 w") auto
            from store_blobs_outcome [OF st] show ?thesis
            proof
              assume "\<exists>e. rs = Inl e \<and> e \<noteq> SQLAlchemyError \<and> t2 = ?t1"
              then obtain e where e: "rs = Inl e" "e \<noteq> SQLAlchemyError" "t2 = ?t1" by blast
              with run Inr Some mp3 seg pv st have "r = Inl e" "t' = ?t1"
                by (simp_all add: defs)
              then show ?thesis using null1 e(2) by simp
            next
              assume ok: "rs = Inr () \<and> locators_set cfg t2"
              let ?t3 = "t2\<lparr>mime_type := Some ''audio/mpeg''\<rparr>"
              have set3: "locators_set cfg ?t3"
                using ok by (simp add: locators_set_def)
              obtain rf w3 where fl: "session_add_flush ?t3 w2 = (rf, w3)"
                by (cases "session_add_flush ?t3 w2") auto
              show ?thesis
              proof (cases rf)
                case (Inl e)
                with fl have "e = SQLAlchemyError" by (simp add: session_add_flush_InlD)
                moreover from run Inr Some mp3 seg pv st ok fl Inl have "r = Inl e" "t' = ?t3"
                  by (simp_all add: defs)
                ultimately show ?thesis using set3 by simp
              next
                case (Inr t4)
                with run \<open>py_index (rsplit1 (CHR ''.'') ?fname) 1 = Inr x\<close> Some mp3 seg pv st ok fl
                have "r = Inr ()" "t' = t4"
                  by (simp_all add: defs)
                moreover from fl Inr have "session_add_flush ?t3 w2 = (Inr t4, w3)" by simp
                from session_add_flush_track [OF this] set3 have "locators_set cfg t4"
                  by (auto simp: locators_set_def split: if_splits)
                ultimately show ?thesis by simp
              qed
            qed
          qed
        qed
      qed
    qed
  qed
qed

lemmas toy_eval =
  process_track_upload_def toy_libs_def base_config_def Track_def song_def header_only_def
  empty_world_def py_index_def rsplit1_def lower_def lower_char_def file_read_def
  store_blobs_def store_local_def store_s3_def and_then_def mkdir_def attempt_def uuid4_def
  write_file_def fs_open_def fs_write_def put_object_def path_join_def session_add_flush_def
  insert_defaults_def Let_def

lemma str_nat_7: "str_nat 7 = ''7''"
  by (simp add: str_nat.simps)

lemma storage_delete_keeps_settled:
  assumes "locators_null cfg t \<or> locators_set cfg t" and "storage_delete cfg t w = (r, t', w')"
  shows "(locators_null cfg t' \<or> locators_set cfg t')
       \<and> (storage_mode cfg = ''postgres'' \<longrightarrow> locators_null cfg t')"
  using assms(1) storage_delete_track [OF assms(2)]
  by (auto simp: locators_null_def locators_set_def split: if_splits)

lemma upload_failed_settled:
  assumes "locators_null cfg t \<or> locators_set cfg t" and "upload_failed cfg e t f w = (r, t', f', w')"
  shows "(locators_null cfg t' \<or> locators_set cfg t') \<and> r = Inr RenderUpload
       \<and> (storage_mode cfg = ''postgres'' \<longrightarrow> locators_null cfg t')"
proof -
  obtain r1 t1 w1 where sd: "storage_delete cfg t (session_rollback w) = (r1, t1, w1)"
    by (cases "storage_delete cfg t (session_rollback w)") auto
  then have "r1 = Inr ()" by (simp add: storage_delete_track)
  with sd assms(2) have "t' = t1" "r = Inr RenderUpload"
    by (simp_all add: upload_failed_def)
  with storage_delete_keeps_settled [OF assms(1) sd] show ?thesis by simp
qed

lemma upload_try_locators:
  assumes "locators_unset t" and "upload_try L cfg t f w = (r, t', f', w')"
  shows "((locators_null cfg t' \<or> (locators_set cfg t' \<and> storage_mode cfg \<noteq> ''postgres''))
            \<and> r = Inr RenderUpload)
       \<or> (locators_set cfg t' \<and> r \<noteq> Inr RenderUpload)"
proof -
  obtain r1 t1 f1 w1 where p: "process_track_upload L cfg t f w = (r1, t1, f1, w1)"
    by (cases "process_track_upload L cfg t f w") auto
  from process_track_upload_locators [OF assms(1) p]
  have settled: "locators_null cfg t1 \<or> locators_set cfg t1"
    and ok: "r1 = Inr () \<Longrightarrow> locators_set cfg t1"
    by auto
  have failed: "upload_failed cfg e t1 f1 v = (r, t', f', w') \<Longrightarrow> ?thesis" for e v
    using upload_failed_settled [OF settled, of e f1 v r t' f' w'] by auto
  show ?thesis
  proof (cases r1)
    case (Inl e)
    with p assms(2) have "upload_failed cfg e t1 f1 w1 = (r, t', f', w')"
      by (simp add: upload_try_def)
    then show ?thesis by (rule failed)
  next
    case (Inr u)
    then have set1: "locators_set cfg t1" using ok by simp
    obtain r2 w2 where c: "session_commit t1 w1 = (r2, w2)"
      by (cases "session_commit t1 w1") auto
    show ?thesis
    proof (cases r2)
      case (Inl e)
      with p c Inr assms(2) have "upload_failed cfg e t1 f1 w2 = (r, t', f', w')"
        by (simp add: upload_try_def)
      then show ?thesis by (rule failed)
    next
      case (Inr u2)
      with p c \<open>r1 = Inr u\<close> assms(2) have "t' = t1" "r = Inr (RedirectTrack (track_id t1))"
        by (auto simp: upload_try_def)
      with set1 show ?thesis by simp
    qed
  qed
qed

text \<open>
  C2, as amended. For a track whose locator fields are all unset when the ingestion starts
  (as the view passes it), the three locator fields of the active backend are all null
  or all non-null when \<open>process_track_upload\<close> returns or raises, and likewise when the
  \<open>try\<close> statement of the view is over: never a mixed state, under any fault schedule. They
  are all non-null on success and all null on every failure except the failure of the final
  flush: that one raises \<open>SQLAlchemyError\<close> after the three locators were assigned, and
  leaves them all non-null. After a failed upload under \<open>postgres\<close> the cleanup has nulled
  them.
\<close>

theorem locators_never_mixed:
  assumes "locators_unset t"
  shows "(locators_null cfg (fst (snd (process_track_upload L cfg t f w)))
          \<or> locators_set cfg (fst (snd (process_track_upload L cfg t f w))))
       \<and> (fst (process_track_upload L cfg t f w) = Inr ()
            \<longrightarrow> locators_set cfg (fst (snd (process_track_upload L cfg t f w))))
       \<and> (\<forall>e. fst (process_track_upload L cfg t f w) = Inl e \<and> e \<noteq> SQLAlchemyError
            \<longrightarrow> locators_null cfg (fst (snd (process_track_upload L cfg t f w))))
       \<and> (fst (process_track_upload L cfg t f w) = Inl SQLAlchemyError
            \<longrightarrow> locators_set cfg (fst (snd (process_track_upload L cfg t f w))))
       \<and> (locators_null cfg (fst (snd (upload_try L cfg t f w)))
          \<or> locators_set cfg (fst (snd (upload_try L cfg t f w))))
       \<and> (fst (upload_try L cfg t f w) \<noteq> Inr RenderUpload
            \<longrightarrow> locators_set cfg (fst (snd (upload_try L cfg t f w))))
       \<and> (fst (upload_try L cfg t f w) = Inr RenderUpload \<and> storage_mode cfg = ''postgres''
            \<longrightarrow> locators_null cfg (fst (snd (upload_try L cfg t f w))))"
proof -
  obtain r1 t1 f1 w1 where p: "process_track_upload L cfg t f w = (r1, t1, f1, w1)"
    by (cases "process_track_upload L cfg t f w") auto
  obtain r2 t2 f2 w2 where u: "upload_try L cfg t f w = (r2, t2, f2, w2)"
    by (cases "upload_try L cfg t f w") auto
  have excl: "\<not> (locators_null cfg x \<and> locators_set cfg x)" for x
    by (auto simp: locators_null_def locators_set_def)
  from process_track_upload_locators [OF assms p]
  have a: "(locators_null cfg t1 \<and> (\<exists>e. r1 = Inl e \<and> e \<noteq> SQLAlchemyError))
       \<or> (locators_set cfg t1 \<and> (r1 = Inr () \<or> r1 = Inl SQLAlchemyError))" .
  from upload_try_locators [OF assms u]
  have b: "((locators_null cfg t2 \<or> (locators_set cfg t2 \<and> storage_mode cfg \<noteq> ''postgres''))
            \<and> r2 = Inr RenderUpload)
       \<or> (locators_set cfg t2 \<and> r2 \<noteq> Inr RenderUpload)" .
  from a have 1: "locators_null cfg t1 \<or> locators_set cfg t1" by blast
  from a have 2: "r1 = Inr () \<longrightarrow> locators_set cfg t1" by auto
  from a excl [of t1] have 3: "\<forall>e. r1 = Inl e \<and> e \<noteq> SQLAlchemyError \<longrightarrow> locators_null cfg t1"
    by auto
  from a have 4: "r1 = Inl SQLAlchemyError \<longrightarrow> locators_set cfg t1" by auto
  from b have 5: "locators_null cfg t2 \<or> locators_set cfg t2" by blast
  from b have 6: "r2 \<noteq> Inr RenderUpload \<longrightarrow> locators_set cfg t2" by blast
  from b have 7: "r2 = Inr RenderUpload \<and> storage_mode cfg = ''postgres'' \<longrightarrow> locators_null cfg t2"
    by blast
  from 1 2 3 4 5 6 7 show ?thesis
    by (simp add: p u)
qed

text \<open>
  C2, counterexample to all null on failure. In \<open>local\<close> mode, when the three files are
  written and the final flush fails, the ingestion raises \<open>SQLAlchemyError\<close> and the track
  holds all three path locators.
\<close>

theorem failed_flush_keeps_locators:
  "(case process_track_upload toy_libs (base_config ''local'') (Track 7 ''t'' None) song
           (empty_world [False, False, False, False, False, False, False, True]) of
      (r, t', f', w') \<Rightarrow>
        r = Inl SQLAlchemyError
      \<and> file_path t' = Some ''uploads/7/a1_orig.mp3''
      \<and> mp3_path t' = Some ''uploads/7/b2_stream.mp3''
      \<and> preview_path t' = Some ''uploads/7/c3_preview.mp3''
      \<and> \<not> locators_null (base_config ''local'') t')"
  by (simp add: toy_eval str_nat_7 locators_null_def)

theorem locators_never_mixed_witness:
  "locators_unset (Track 7 ''t'' None)
   \<and> locators_null (base_config ''local'')
        (fst (snd (process_track_upload toy_libs (base_config ''local'') (Track 7 ''t'' None) song
           (empty_world [False, False, False, False, False, False, True]))))
   \<and> locators_set (base_config ''local'')
        (fst (snd (process_track_upload toy_libs (base_config ''local'') (Track 7 ''t'' None) song
           (empty_world [False, False, False, False, False, False, False, True]))))
   \<and> locators_set (base_config ''local'')
        (fst (snd (process_track_upload toy_libs (base_config ''local'') (Track 7 ''t'' None) song
           (empty_world []))))"
proof -
  let ?c = "base_config ''local''"
  let ?run = "\<lambda>fl. process_track_upload toy_libs ?c (Track 7 ''t'' None) song (empty_world fl)"
  have h: "locators_unset (Track 7 ''t'' None)"
    by (simp add: locators_unset_def Track_def)
  have ok: "fst (?run []) = Inr ()"
    by (simp add: toy_eval)
  have w3: "fst (?run [False, False, False, False, False, False, True]) = Inl OSError"
    by (simp add: toy_eval)
  have fl: "fst (?run [False, False, False, False, False, False, False, True]) = Inl SQLAlchemyError"
    by (simp add: toy_eval)
  from locators_never_mixed [OF h, of ?c toy_libs song "empty_world []"] ok
  have a: "locators_set ?c (fst (snd (?run [])))"
    by blast
  from locators_never_mixed [OF h, of ?c toy_libs song
      "empty_world [False, False, False, False, False, False, True]"] w3
  have b: "locators_null ?c (fst (snd (?run [False, False, False, False, False, False, True])))"
    by auto
  from locators_never_mixed [OF h, of ?c toy_libs song
      "empty_world [False, False, False, False, False, False, False, True]"] fl
  have c: "locators_set ?c (fst (snd (?run [False, False, False, False, False, False, False, True])))"
    by blast
  from h a b c show ?thesis by simp
qed

section \<open>What a successful ingestion has stored\<close>











lemma lower_char_dot: "lower_char c = CHR ''.'' \<Longrightarrow> c = CHR ''.''"
  by (auto simp: lower_char_def split: option.splits if_splits)






section \<open>Modes other than the three named ones\<close>




section \<open>Rejected uploads\<close>

lemma endswith_iff: "endswith s suf \<longleftrightarrow> (\<exists>p. s = p @ suf)"
proof
  assume "endswith s suf"
  then have "take (length (rev suf)) (rev s) = rev suf" by (simp add: endswith_def)
  then have "rev s = rev suf @ drop (length (rev suf)) (rev s)"
    by (metis append_take_drop_id)
  then have "rev (rev s) = rev (rev suf @ drop (length (rev suf)) (rev s))" by simp
  then have "s = rev (drop (length (rev suf)) (rev s)) @ suf" by simp
  then show "\<exists>p. s = p @ suf" ..
next
  assume "\<exists>p. s = p @ suf"
  then show "endswith s suf" by (auto simp: endswith_def)
qed

lemma lower_dot_free: "CHR ''.'' \<in> set b \<Longrightarrow> CHR ''.'' \<in> set (lower b)"
proof -
  assume "CHR ''.'' \<in> set b"
  moreover have "lower_char (CHR ''.'') = CHR ''.''" by (simp add: lower_char_def)
  ultimately show ?thesis by (force simp: lower_def)
qed

lemma FileAllowed_last_dot:
  assumes "FileAllowed exts name" and "\<And>x. x \<in> set exts \<Longrightarrow> CHR ''.'' \<notin> set x"
  shows "\<exists>pre suf. name = pre @ ''.'' @ suf \<and> CHR ''.'' \<notin> set suf \<and> lower suf \<in> set exts"
proof -
  from assms(1) obtain x p where x: "x \<in> set exts" and e: "lower name = p @ ''.'' @ x"
    by (auto simp: FileAllowed_def list_ex_iff endswith_iff)
  from e have "map lower_char name = p @ (''.'' @ x)" by (simp add: lower_def)
  then obtain a r where n: "name = a @ r" and "map lower_char a = p" and r: "map lower_char r = ''.'' @ x"
    by (auto simp: map_eq_append_conv)
  from r obtain c b where rb: "r = c # b" and c: "lower_char c = CHR ''.''" and b: "map lower_char b = x"
    by (cases r) auto
  from c have "c = CHR ''.''" by (rule lower_char_dot)
  with n rb have 1: "name = a @ ''.'' @ b" by simp
  from b have 2: "lower b = x" by (simp add: lower_def)
  from assms(2) [OF x] 2 have 3: "CHR ''.'' \<notin> set b"
    using lower_dot_free [of b] by auto
  from 1 2 3 x show ?thesis by blast
qed

lemma upload_set_dot_free: "x \<in> set upload_set \<Longrightarrow> CHR ''.'' \<notin> set x"
  by (auto simp: upload_set_def)

text \<open>
  C6. When the extension of the uploaded name is not in the configured allow-list, the view
  rejects the upload before any work is done, whatever the form holds: either the form
  does not validate and is rendered again with its errors, or it validates and the view
  redirects to the upload page with the message that the file type is not allowed. In both
  cases the upload is returned unread and the world is the one before, but for the flashed
  message: no file, bucket object, row, identifier or fault of the backends is used. Under
  the shipped allow-list, which is the list of the form's \<open>FileAllowed\<close> validator, the form
  never validates, and a named upload gets the error of that validator.
\<close>

theorem upload_rejects_disallowed:
  assumes "\<not> (\<exists>pre suf. filename (form_track form) = pre @ ''.'' @ suf \<and> CHR ''.'' \<notin> set suf
              \<and> lower suf \<in> allowed_extensions cfg)"
  shows "upload L cfg uid form w
           = (if validate_on_submit form
              then (Inr RedirectUpload, form_track form,
                    w\<lparr>flashes := flashes w @ [(FileTypeNotAllowed, ''danger'')]\<rparr>)
              else (Inr RenderUpload, form_track form, w))
       \<and> (allowed_extensions cfg = set upload_set
            \<longrightarrow> \<not> validate_on_submit form
              \<and> (filename (form_track form) \<noteq> []
                   \<longrightarrow> track_field_errors (form_track form) = [''Audio files only!'']))"
proof -
  have a: "upload L cfg uid form w
           = (if validate_on_submit form
              then (Inr RedirectUpload, form_track form,
                    w\<lparr>flashes := flashes w @ [(FileTypeNotAllowed, ''danger'')]\<rparr>)
              else (Inr RenderUpload, form_track form, w))"
    using assms by (simp add: upload_def allowed_file_char flash_def)
  have b: "\<not> FileAllowed upload_set (filename (form_track form))"
    if "allowed_extensions cfg = set upload_set"
  proof
    assume "FileAllowed upload_set (filename (form_track form))"
    from FileAllowed_last_dot [OF this upload_set_dot_free] that assms show False by auto
  qed
  have c: "\<not> validate_on_submit form
      \<and> (filename (form_track form) \<noteq> []
           \<longrightarrow> track_field_errors (form_track form) = [''Audio files only!''])"
    if "allowed_extensions cfg = set upload_set"
    using b [OF that] by (auto simp: validate_on_submit_def track_field_errors_def)
  from a c show ?thesis by blast
qed

theorem upload_rejects_disallowed_witness:
  "upload toy_libs (base_config ''local'') 7
      (submitted_form \<lparr>filename = ''virus.exe'', content = [1, 2], consumed = 0\<rparr>) (empty_world [])
    = (Inr RenderUpload, \<lparr>filename = ''virus.exe'', content = [1, 2], consumed = 0\<rparr>, empty_world [])
   \<and> track_field_errors \<lparr>filename = ''virus.exe'', content = [1, 2], consumed = 0\<rparr>
       = [''Audio files only!'']
   \<and> upload toy_libs ((base_config ''local'')\<lparr>allowed_extensions := {''mp3''}\<rparr>) 7
      (submitted_form \<lparr>filename = ''song.wav'', content = [1, 2], consumed = 0\<rparr>) (empty_world [])
    = (Inr RedirectUpload, \<lparr>filename = ''song.wav'', content = [1, 2], consumed = 0\<rparr>,
       (empty_world [])\<lparr>flashes := [(FileTypeNotAllowed, ''danger'')]\<rparr>)"
proof -
  let ?exe = "\<lparr>filename = ''virus.exe'', content = [1, 2], consumed = 0\<rparr>"
  let ?wav = "\<lparr>filename = ''song.wav'', content = [1, 2], consumed = 0\<rparr>"
  let ?narrow = "(base_config ''local'')\<lparr>allowed_extensions := {''mp3''}\<rparr>"
  have a: "\<not> (\<exists>pre suf. filename (form_track (submitted_form ?exe)) = pre @ ''.'' @ suf
              \<and> CHR ''.'' \<notin> set suf \<and> lower suf \<in> allowed_extensions (base_config ''local''))"
  proof
    assume "\<exists>pre suf. filename (form_track (submitted_form ?exe)) = pre @ ''.'' @ suf
              \<and> CHR ''.'' \<notin> set suf \<and> lower suf \<in> allowed_extensions (base_config ''local'')"
    then obtain pre suf where e: "''virus'' @ [CHR ''.''] @ ''exe'' = pre @ [CHR ''.''] @ suf"
      and n: "CHR ''.'' \<notin> set suf" and l: "lower suf \<in> allowed_extensions (base_config ''local'')"
      by (auto simp: submitted_form_def)
    have "CHR ''.'' \<notin> set ''exe''" by simp
    from split_last_unique [OF e this n] have "suf = ''exe''" by simp
    with l show False by (simp add: base_config_def lower_def lower_char_def)
  qed
  have b: "\<not> (\<exists>pre suf. filename (form_track (submitted_form ?wav)) = pre @ ''.'' @ suf
              \<and> CHR ''.'' \<notin> set suf \<and> lower suf \<in> allowed_extensions ?narrow)"
  proof
    assume "\<exists>pre suf. filename (form_track (submitted_form ?wav)) = pre @ ''.'' @ suf
              \<and> CHR ''.'' \<notin> set suf \<and> lower suf \<in> allowed_extensions ?narrow"
    then obtain pre suf where e: "''song'' @ [CHR ''.''] @ ''wav'' = pre @ [CHR ''.''] @ suf"
      and n: "CHR ''.'' \<notin> set suf" and l: "lower suf \<in> allowed_extensions ?narrow"
      by (auto simp: submitted_form_def)
    have "CHR ''.'' \<notin> set ''wav''" by simp
    from split_last_unique [OF e this n] have "suf = ''wav''" by simp
    with l show False by (simp add: base_config_def lower_def lower_char_def)
  qed
  have shipped: "allowed_extensions (base_config ''local'') = set upload_set"
    by (auto simp: base_config_def upload_set_def)
  have ne: "filename (form_track (submitted_form ?exe)) \<noteq> []"
    by (simp add: submitted_form_def)
  have valid: "validate_on_submit (submitted_form ?wav)"
    by (simp add: validate_on_submit_def submitted_form_def optional_length_errors_def
        track_field_errors_def FileAllowed_def upload_set_def endswith_def lower_def lower_char_def)
  from upload_rejects_disallowed [OF a, of toy_libs 7 "empty_world []"] shipped ne
  have 1: "upload toy_libs (base_config ''local'') 7 (submitted_form ?exe) (empty_world [])
      = (Inr RenderUpload, ?exe, empty_world [])"
    and 2: "track_field_errors ?exe = [''Audio files only!'']"
    by (auto simp: submitted_form_def)
  from upload_rejects_disallowed [OF b, of toy_libs 7 "empty_world []"] valid
  have 3: "upload toy_libs ?narrow 7 (submitted_form ?wav) (empty_world [])
      = (Inr RedirectUpload, ?wav, (empty_world [])\<lparr>flashes := [(FileTypeNotAllowed, ''danger'')]\<rparr>)"
    by (simp add: submitted_form_def empty_world_def)
  from 1 2 3 show ?thesis by simp
qed

section \<open>The code at the inputs where it departs from the specification\<close>

lemmas form_eval =
  validate_on_submit_def submitted_form_def optional_length_errors_def track_field_errors_def
  FileAllowed_def upload_set_def endswith_def

text \<open>
  C1, the code at a failing input. In \<open>local\<close> mode, when the first two files are written
  and opening the third one fails, the view reports the failure and none of the path
  locators is set, but the two files written stay in the filesystem: \<open>storage_delete\<close>
  reads the paths from the track, which holds none, so no delete reaches them.
\<close>

theorem failed_upload_leaves_blobs:
  "(case upload toy_libs (base_config ''local'') 7 (submitted_form song)
           (empty_world [False, False, False, False, False, False, True]) of
      (r, f, w) \<Rightarrow>
        r = Inr RenderUpload
      \<and> flashes w = [(UploadFailed OSError, ''danger'')]
      \<and> fs w ''uploads/7/a1_orig.mp3'' = Some [82, 1, 2, 3]
      \<and> fs w ''uploads/7/b2_stream.mp3'' = Some [1, 2, 3]
      \<and> fs w ''uploads/7/c3_preview.mp3'' = None)
   \<and> (case upload_try toy_libs (base_config ''local'') (Track 7 ''song'' None) song
           (empty_world [False, False, False, False, False, True]) of
      (r, t, f, w) \<Rightarrow>
        r = Inr RenderUpload
      \<and> file_path t = None \<and> mp3_path t = None \<and> preview_path t = None
      \<and> fs w ''uploads/7/a1_orig.mp3'' = Some [82, 1, 2, 3]
      \<and> fs w ''uploads/7/b2_stream.mp3'' = Some [1, 2, 3])"
  by (simp add: upload_def upload_try_def upload_failed_def allowed_file_def str_or_def truthy_def
      storage_delete_def storage_delete_body_def session_rollback_def flash_def log_exception_def
      str_nat_7 form_eval toy_eval)

text \<open>
  C4, the code at a failing input. Under \<open>postgres\<close>, for a track whose preview blob is
  null and whose stream blob is set, the retrieval of the preview selects the blob of the
  original, not that of the stream variant, and then raises \<open>NameError\<close> at \<open>send_file\<close>;
  without an original it returns no response at all. The bytes of the stream variant are
  not handed out.
\<close>

theorem preview_falls_back_to_original_in_postgres:
  "select_blob
     ((Track 7 ''t'' None)\<lparr>original_file := Some [2], mp3_file := Some [1],
        original_filename := Some ''song.wav''\<rparr>) ''preview''
   = Some ([2], ''application/octet-stream'', Some ''song.wav'')
   \<and> get_file_stream_response (base_config ''postgres'')
     ((Track 7 ''t'' None)\<lparr>original_file := Some [2], mp3_file := Some [1],
        original_filename := Some ''song.wav''\<rparr>)
     ''preview'' (empty_world [])
   = Inl NameError
   \<and> get_file_stream_response (base_config ''postgres'')
     ((Track 7 ''t'' None)\<lparr>mp3_file := Some [1]\<rparr>) ''preview'' (empty_world [])
   = Inr None"
  by (simp add: get_file_stream_response_def select_blob_def send_file_def base_config_def
      Track_def truthy_def str_or_def)

text \<open>
  C3, counterexample. For a track in \<open>local\<close> mode without a stream path but with the
  path of an existing original, the retrieval of the stream variant selects the path of the
  original, and the call does not fail with \<open>HTTP404\<close>.
\<close>

theorem stream_absent_counterexample:
  "select_path ((Track 7 ''t'' None)\<lparr>file_path := Some ''uploads/7/a1_orig.wav''\<rparr>) ''mp3''
     = Some ''uploads/7/a1_orig.wav''
   \<and> get_file_stream_response (base_config ''local'')
     ((Track 7 ''t'' None)\<lparr>file_path := Some ''uploads/7/a1_orig.wav''\<rparr>)
     ''mp3'' ((empty_world [])\<lparr>fs := [''uploads/7/a1_orig.wav'' \<mapsto> [1, 2, 3]]\<rparr>)
     \<noteq> Inl HTTP404
   \<and> \<not> has_stream_locator (base_config ''local'')
         ((Track 7 ''t'' None)\<lparr>file_path := Some ''uploads/7/a1_orig.wav''\<rparr>)"
  by (simp add: get_file_stream_response_def select_path_def send_file_def abort_def
      base_config_def Track_def truthy_def str_or_def py_or_def empty_world_def
      has_stream_locator_def)

text \<open>
  C3, as amended. When the locator of the stream variant is absent, resolving the stream
  variant falls back to the locator of the original: the blob, the key or the path that
  the call selects is the one of the original, and the call ends as the call for the
  original variant does, under every backend.
\<close>

theorem stream_falls_back_to_original:
  assumes "\<not> has_stream_locator cfg t"
  shows "(if storage_mode cfg = ''postgres'' then select_blob t ''mp3'' = select_blob t ''original''
          else if storage_mode cfg = ''s3'' then select_key t ''mp3'' = s3_key t
          else select_path t ''mp3'' = file_path t)
       \<and> get_file_stream_response cfg t ''mp3'' w = get_file_stream_response cfg t ''original'' w"
  using assms
  by (auto simp: get_file_stream_response_def has_stream_locator_def select_blob_def
      select_key_def select_path_def py_or_def Let_def split: if_splits)

theorem stream_falls_back_to_original_witness:
  "\<not> has_stream_locator (base_config ''s3'') ((Track 7 ''t'' None)\<lparr>s3_key := Some ''k/original.wav''\<rparr>)
   \<and> select_key ((Track 7 ''t'' None)\<lparr>s3_key := Some ''k/original.wav''\<rparr>) ''mp3''
     = Some ''k/original.wav''"
proof -
  let ?t = "(Track 7 ''t'' None)\<lparr>s3_key := Some ''k/original.wav''\<rparr>"
  have h: "\<not> has_stream_locator (base_config ''s3'') ?t"
    by (simp add: has_stream_locator_def base_config_def Track_def truthy_def)
  have "s3_key ?t = Some ''k/original.wav''" by simp
  with stream_falls_back_to_original [OF h] h show ?thesis
    by (simp add: base_config_def)
qed

text \<open>
  C8, the code at failing inputs. No call of the retrieval answers with a response: it
  raises \<open>NameError\<close> or \<open>ClientError\<close>, or returns \<open>None\<close>. After a successful ingestion
  under each of the three backends the stream blob is stored under the locator that the
  retrieval selects, and the retrieval raises \<open>NameError\<close> instead of handing out its bytes.
\<close>

theorem retrieval_raises_name_error:
  "get_file_stream_response cfg t variant w \<in> {Inl NameError, Inl ClientError, Inr None}
   \<and> (case process_track_upload toy_libs (base_config ''local'') (Track 7 ''t'' None) song
           (empty_world []) of
      (r, t', f', w') \<Rightarrow>
        r = Inr ()
      \<and> select_path t' ''mp3'' = Some ''uploads/7/b2_stream.mp3''
      \<and> fs w' ''uploads/7/b2_stream.mp3'' = Some [1, 2, 3]
      \<and> get_file_stream_response (base_config ''local'') t' ''mp3'' w' = Inl NameError)
   \<and> (case process_track_upload toy_libs (base_config ''s3'') (Track 7 ''t'' None) song
           (empty_world []) of
      (r, t', f', w') \<Rightarrow>
        r = Inr ()
      \<and> select_key t' ''mp3'' = Some ''tracks/7/a1/stream.mp3''
      \<and> s3 w' ''tracks/7/a1/stream.mp3'' = Some ([1, 2, 3], ''audio/mpeg'')
      \<and> get_file_stream_response (base_config ''s3'') t' ''mp3'' w' = Inl NameError)
   \<and> (case process_track_upload toy_libs (base_config ''postgres'') (Track 7 ''t'' None) song
           (empty_world []) of
      (r, t', f', w') \<Rightarrow>
        r = Inr ()
      \<and> mp3_file t' = Some [1, 2, 3]
      \<and> get_file_stream_response (base_config ''postgres'') t' ''mp3'' w' = Inl NameError)"
proof (intro conjI)
  show "get_file_stream_response cfg t variant w \<in> {Inl NameError, Inl ClientError, Inr None}"
    by (auto simp: get_file_stream_response_def send_file_def abort_def Let_def
        split: option.splits prod.splits)
qed (simp_all add: toy_eval str_nat_7 get_file_stream_response_def select_path_def select_key_def
      select_blob_def send_file_def abort_def truthy_def py_or_def str_or_def)

end
